theory Spec2Isabelle
  imports Complex_Main "HOL-Library.AList"
begin

section \<open>Python helpers\<close>

text \<open>
  A Python \<open>dict\<close> keeps its keys in insertion order; it is modelled as an association
  list with distinct keys: \<open>map_of\<close> is the lookup, \<open>AList.update\<close> the assignment
  \<open>d[k] = v\<close> (an existing key keeps its place, a new one goes to the end),
  \<open>AList.delete\<close> is \<open>del d[k]\<close>.
\<close>

text \<open>The slice \<open>xs[-n:]\<close> for \<open>n > 0\<close>: the last \<open>n\<close> elements, all of them when
  the list is shorter.\<close>

definition last_n :: "nat \<Rightarrow> 'a list \<Rightarrow> 'a list" where
  "last_n n xs = drop (length xs - n) xs"

text \<open>The slice \<open>xs[i:]\<close> for any integer \<open>i\<close>: a negative start counts from the
  end, and \<open>xs[-0:]\<close> is \<open>xs[0:]\<close>, the whole list.\<close>

definition slice_from :: "int \<Rightarrow> 'a list \<Rightarrow> 'a list" where
  "slice_from i xs = (if i < 0 then last_n (nat (- i)) xs else drop (nat i) xs)"

text \<open>\<open>sep.join(parts)\<close>\<close>

fun join :: "string \<Rightarrow> string list \<Rightarrow> string" where
  "join sep [] = []"
| "join sep [p] = p"
| "join sep (p # q # ps) = p @ sep @ join sep (q # ps)"

section \<open>Conversation memory (app/memory/conversation.py)\<close>

text \<open>A message is the dict \<open>{"role": ..., "content": ...}\<close>.\<close>

record message =
  role :: string
  content :: string

record memory_manager =
  histories :: "(string \<times> message list) list"

definition new_manager :: memory_manager where
  "new_manager = \<lparr>histories = []\<rparr>"

definition get_history :: "string \<Rightarrow> memory_manager \<Rightarrow> message list \<times> memory_manager" where
  "get_history session_id m =
     (case map_of (histories m) session_id of
        None \<Rightarrow> ([], m\<lparr>histories := AList.update session_id [] (histories m)\<rparr>)
      | Some h \<Rightarrow> (h, m))"

definition render_message :: "message \<Rightarrow> string" where
  "render_message msg =
     (if role msg = ''user'' then ''Human'' else ''Assistant'') @ '': '' @ content msg"

definition get_recent_context :: "string \<Rightarrow> int \<Rightarrow> memory_manager \<Rightarrow> string \<times> memory_manager" where
  "get_recent_context session_id n_turns m =
     (case get_history session_id m of
        (history, m') \<Rightarrow>
          if history = [] then ([], m')
          else (join [CHR 0x0A] (map render_message (slice_from (- (n_turns * 2)) history)), m'))"

definition add_turn :: "string \<Rightarrow> string \<Rightarrow> string \<Rightarrow> memory_manager \<Rightarrow> memory_manager" where
  "add_turn session_id user_message assistant_message m =
     (let h0 = (case map_of (histories m) session_id of None \<Rightarrow> [] | Some h \<Rightarrow> h);
          h1 = h0 @ [\<lparr>role = ''user'', content = user_message\<rparr>];
          h2 = h1 @ [\<lparr>role = ''assistant'', content = assistant_message\<rparr>];
          h3 = (if length h2 > 20 then last_n 20 h2 else h2)
      in m\<lparr>histories := AList.update session_id h3 (histories m)\<rparr>)"

definition clear_session :: "string \<Rightarrow> memory_manager \<Rightarrow> bool \<times> memory_manager" where
  "clear_session session_id m =
     (let existed = (map_of (histories m) session_id \<noteq> None)
      in if existed then (True, m\<lparr>histories := AList.delete session_id (histories m)\<rparr>)
         else (False, m))"

definition clear_all :: "memory_manager \<Rightarrow> nat \<times> memory_manager" where
  "clear_all m = (length (histories m), m\<lparr>histories := []\<rparr>)"

definition list_sessions :: "memory_manager \<Rightarrow> string list" where
  "list_sessions m = map fst (histories m)"

text \<open>The operations of the manager, and the manager each of them leaves behind.\<close>

datatype memory_op =
    GetHistory string
  | GetRecentContext string int
  | AddTurn string string string
  | ClearSession string
  | ClearAll
  | ListSessions

fun run_op :: "memory_op \<Rightarrow> memory_manager \<Rightarrow> memory_manager" where
  "run_op (GetHistory sid) m = snd (get_history sid m)"
| "run_op (GetRecentContext sid n) m = snd (get_recent_context sid n m)"
| "run_op (AddTurn sid u a) m = add_turn sid u a m"
| "run_op (ClearSession sid) m = snd (clear_session sid m)"
| "run_op ClearAll m = snd (clear_all m)"
| "run_op ListSessions m = m"

text \<open>A sequence of \<open>add_turn\<close> calls, each a triple (session, user message, assistant
  message), in call order.\<close>

fun add_turns :: "(string \<times> string \<times> string) list \<Rightarrow> memory_manager \<Rightarrow> memory_manager" where
  "add_turns [] m = m"
| "add_turns ((sid, u, a) # ts) m = add_turns ts (add_turn sid u a m)"

text \<open>The messages that the calls for one session append, oldest first.\<close>

fun appended :: "string \<Rightarrow> (string \<times> string \<times> string) list \<Rightarrow> message list" where
  "appended session_id [] = []"
| "appended session_id ((sid, u, a) # ts) =
     (if sid = session_id
      then \<lparr>role = ''user'', content = u\<rparr> # \<lparr>role = ''assistant'', content = a\<rparr> # appended session_id ts
      else appended session_id ts)"

definition calls_on :: "string \<Rightarrow> (string \<times> string \<times> string) list \<Rightarrow> nat" where
  "calls_on session_id ts = length (filter (\<lambda>t. fst t = session_id) ts)"

text \<open>User and assistant messages alternate, starting with the user's and ending with
  the assistant's.\<close>

fun alternating :: "message list \<Rightarrow> bool" where
  "alternating [] = True"
| "alternating [x] = False"
| "alternating (x # y # rest) = (role x = ''user'' \<and> role y = ''assistant'' \<and> alternating rest)"

definition history_inv :: "memory_manager \<Rightarrow> bool" where
  "history_inv m =
     (\<forall>sid h. map_of (histories m) sid = Some h \<longrightarrow>
        even (length h) \<and> length h \<le> 20 \<and> alternating h)"

definition current :: "string \<Rightarrow> memory_manager \<Rightarrow> message list" where
  "current sid m = (case map_of (histories m) sid of None \<Rightarrow> [] | Some h \<Rightarrow> h)"

section \<open>Configuration (app/config.py)\<close>

text \<open>The two retrieval options of \<open>Settings\<close>. They are read from the environment, so
  the operations below take the settings as an argument; \<open>default_settings\<close> holds the
  defaults of the class.\<close>

record settings =
  retrieval_top_k :: nat
  retrieval_score_threshold :: real

definition default_settings :: settings where
  "default_settings = \<lparr>retrieval_top_k = 5, retrieval_score_threshold = 3 / 10\<rparr>"

section \<open>Text helper (app/utils.py)\<close>

text \<open>The slice \<open>xs[:j]\<close> for any integer \<open>j\<close>.\<close>

definition slice_to :: "int \<Rightarrow> 'a list \<Rightarrow> 'a list" where
  "slice_to j xs = (if j < 0 then take (length xs - nat (- j)) xs else take (nat j) xs)"

definition truncate_text :: "string \<Rightarrow> int \<Rightarrow> string \<Rightarrow> string" where
  "truncate_text text max_length suffix =
     (if int (length text) \<le> max_length then text
      else slice_to (max_length - int (length suffix)) text @ suffix)"

text \<open>\<open>str(i)\<close> for a natural number, as the f-string \<open>f"chunk_{i}"\<close> renders it.\<close>

fun string_of_nat :: "nat \<Rightarrow> string" where
  "string_of_nat n =
     (if n < 10 then [char_of (48 + n)]
      else string_of_nat (n div 10) @ [char_of (48 + n mod 10)])"

declare string_of_nat.simps [simp del]

section \<open>Vector store (app/rag/vector_store.py)\<close>

text \<open>
  The metadata dict of a chunk. The repository writes the keys \<open>document_id\<close>,
  \<open>chunk_id\<close>, \<open>chunk_index\<close>, \<open>filename\<close> and \<open>file_type\<close> (api/ingest.py) and reads
  them with \<open>.get\<close>; a key that is absent is \<open>None\<close>.
\<close>

record chunk_metadata =
  md_document_id :: "string option"
  md_chunk_id :: "string option"
  md_chunk_index :: "int option"
  md_filename :: "string option"
  md_file_type :: "string option"

text \<open>LangChain's \<open>Document\<close>.\<close>

record Document =
  page_content :: string
  metadata :: chunk_metadata

text \<open>\<open>DocumentMetadata\<close> (app/schemas/document.py); \<open>file_size\<close> and
  \<open>chunk_count\<close> are validated \<open>ge=0\<close>.\<close>

record DocumentMetadata =
  document_id :: string
  filename :: string
  file_type :: string
  file_size :: nat
  chunk_count :: nat
  created_at :: string
  content_hash :: "string option"
  status :: string

text \<open>
  The FAISS store of the library: the chunks in insertion order, each under the
  docstore id the library gave it, with the vector the embedding model computed for its
  text. The ids are fresh (uuid4 in the library); the model draws them from a counter.
\<close>

type_synonym faiss = "(nat \<times> Document \<times> real list) list"

text \<open>The distance of the flat L2 index: the squared Euclidean distance.\<close>

definition l2_distance :: "real list \<Rightarrow> real list \<Rightarrow> real" where
  "l2_distance u v = sum_list (map (\<lambda>(x, y). (x - y)\<^sup>2) (zip u v))"

text \<open>The library's \<open>similarity_search_with_score(query, k)\<close>: the \<open>k\<close> chunks nearest
  to the query's vector with their distances, nearest first.\<close>

definition similarity_search_with_score ::
  "(string \<Rightarrow> real list) \<Rightarrow> faiss \<Rightarrow> string \<Rightarrow> nat \<Rightarrow> (Document \<times> real) list" where
  "similarity_search_with_score embeddings vs query k =
     take k (sort_key snd (map (\<lambda>(i, doc, v). (doc, l2_distance (embeddings query) v)) vs))"

text \<open>The library's \<open>delete(ids)\<close>: the entries under these docstore ids leave the index.\<close>

definition faiss_delete :: "nat list \<Rightarrow> faiss \<Rightarrow> faiss" where
  "faiss_delete ids vs = filter (\<lambda>(i, doc, v). i \<notin> set ids) vs"

text \<open>
  The persisted files, and what a write does: it succeeds, or it raises and leaves
  behind some content of the file (possibly none).
\<close>

record disk =
  index_file :: "faiss option"
  metadata_file :: "(string \<times> DocumentMetadata) list option"

datatype 'a outcome = Succeeds | Raises 'a

record io =
  save_local :: "faiss option outcome"
  write_metadata :: "(string \<times> DocumentMetadata) list option outcome"

datatype log_entry = LogError string | LogWarning string

datatype error = FaissError | OSError

text \<open>The service. \<open>logged\<close> collects the messages the code logs at warning and
  error level (info messages are not modelled).\<close>

record store =
  vector_store :: "faiss option"
  document_metadata :: "(string \<times> DocumentMetadata) list"
  next_uuid :: nat
  files :: disk
  logged :: "log_entry list"

definition create_new_store :: "store \<Rightarrow> store" where
  "create_new_store s = s\<lparr>vector_store := None, document_metadata := []\<rparr>"

definition save_metadata :: "io \<Rightarrow> store \<Rightarrow> store" where
  "save_metadata w s =
     (case write_metadata w of
        Succeeds \<Rightarrow> s\<lparr>files := (files s)\<lparr>metadata_file := Some (document_metadata s)\<rparr>\<rparr>
      | Raises left \<Rightarrow>
          s\<lparr>files := (files s)\<lparr>metadata_file := left\<rparr>,
            logged := logged s @ [LogError ''Failed to save metadata'']\<rparr>)"

definition save_store :: "io \<Rightarrow> store \<Rightarrow> store" where
  "save_store w s =
     (case vector_store s of
        None \<Rightarrow> s
      | Some vs \<Rightarrow>
          (case save_local w of
             Succeeds \<Rightarrow> save_metadata w (s\<lparr>files := (files s)\<lparr>index_file := Some vs\<rparr>\<rparr>)
           | Raises left \<Rightarrow>
               s\<lparr>files := (files s)\<lparr>index_file := left\<rparr>,
                 logged := logged s @ [LogError ''Failed to save vector store'']\<rparr>))"

text \<open>
  \<open>add_documents\<close>. The library cannot build an index from an empty batch (the comment
  at \<open>_create_new_store\<close>: FAISS requires at least one document); the call raises there,
  before the metadata is recorded.
\<close>

definition add_documents ::
  "(string \<Rightarrow> real list) \<Rightarrow> io \<Rightarrow> string list \<Rightarrow> chunk_metadata list \<Rightarrow> DocumentMetadata
     \<Rightarrow> store \<Rightarrow> (error + string list) \<times> store" where
  "add_documents embeddings w texts metadatas dm s =
     (let documents = map (\<lambda>(text, meta). \<lparr>page_content = text, metadata = meta\<rparr>) (zip texts metadatas)
      in if documents = [] then (Inl FaissError, s)
         else
           let added = map (\<lambda>(i, doc). (next_uuid s + i, doc, embeddings (page_content doc)))
                         (enumerate 0 documents);
               s1 = s\<lparr>vector_store :=
                        Some (case vector_store s of None \<Rightarrow> added | Some vs \<Rightarrow> vs @ added),
                      next_uuid := next_uuid s + length documents\<rparr>;
               s2 = s1\<lparr>document_metadata := AList.update (document_id dm) dm (document_metadata s1)\<rparr>;
               s3 = save_store w s2;
               chunk_ids = map (\<lambda>(i, meta). case md_chunk_id meta of
                                   Some c \<Rightarrow> c | None \<Rightarrow> ''chunk_'' @ string_of_nat i)
                             (enumerate 0 metadatas)
           in (Inr chunk_ids, s3))"

definition docs_to_delete :: "string \<Rightarrow> faiss \<Rightarrow> nat list" where
  "docs_to_delete did vs =
     map fst (filter (\<lambda>(i, doc, v). md_document_id (metadata doc) = Some did) vs)"

definition delete_document :: "io \<Rightarrow> string \<Rightarrow> store \<Rightarrow> bool \<times> store" where
  "delete_document w did s =
     (if map_of (document_metadata s) did = None
      then (False, s\<lparr>logged := logged s @ [LogWarning (''Document '' @ did @ '' not found'')]\<rparr>)
      else
        let s1 = (case vector_store s of
                    None \<Rightarrow> s
                  | Some vs \<Rightarrow>
                      if docs_to_delete did vs \<noteq> []
                      then s\<lparr>vector_store := Some (faiss_delete (docs_to_delete did vs) vs)\<rparr>
                      else s);
            s2 = s1\<lparr>document_metadata := AList.delete did (document_metadata s1)\<rparr>;
            s3 = save_store w s2
        in (True, s3))"

text \<open>The loop of \<open>similarity_search\<close> over the library's results.\<close>

fun filter_results :: "real \<Rightarrow> (Document \<times> real) list \<Rightarrow> (Document \<times> real) list" where
  "filter_results threshold [] = []"
| "filter_results threshold ((doc, distance) # results) =
     (let similarity = 1 / (1 + distance)
      in if similarity \<ge> threshold
         then (doc, similarity) # filter_results threshold results
         else filter_results threshold results)"

text \<open>\<open>x or default\<close> for an optional number: \<open>None\<close> and zero are falsy.\<close>

definition or_default :: "'a::zero option \<Rightarrow> 'a \<Rightarrow> 'a" where
  "or_default x d = (case x of None \<Rightarrow> d | Some v \<Rightarrow> if v = 0 then d else v)"

definition similarity_search ::
  "(string \<Rightarrow> real list) \<Rightarrow> settings \<Rightarrow> string \<Rightarrow> nat \<Rightarrow> real option \<Rightarrow> store
     \<Rightarrow> (Document \<times> real) list" where
  "similarity_search embeddings cfg query k score_threshold s =
     (case vector_store s of
        None \<Rightarrow> []
      | Some vs \<Rightarrow>
          let threshold = or_default score_threshold (retrieval_score_threshold cfg);
              results = similarity_search_with_score embeddings vs query k
          in filter_results threshold results)"

definition get_all_documents :: "store \<Rightarrow> DocumentMetadata list" where
  "get_all_documents s = map snd (document_metadata s)"

definition get_document :: "string \<Rightarrow> store \<Rightarrow> DocumentMetadata option" where
  "get_document did s = map_of (document_metadata s) did"

text \<open>\<open>clear\<close>: the memory is reset first; removing the files can raise, and then
  leaves some of them behind.\<close>

definition clear :: "disk outcome \<Rightarrow> store \<Rightarrow> (error + unit) \<times> store" where
  "clear unlink s =
     (let s1 = s\<lparr>vector_store := None, document_metadata := []\<rparr>
      in case unlink of
           Succeeds \<Rightarrow> (Inr (), s1\<lparr>files := \<lparr>index_file = None, metadata_file = None\<rparr>\<rparr>)
         | Raises left \<Rightarrow> (Inl OSError, s1\<lparr>files := left\<rparr>))"

text \<open>The number of chunks in the index whose metadata carries a document id.\<close>

definition stored_chunks :: "string \<Rightarrow> store \<Rightarrow> nat" where
  "stored_chunks did s =
     (case vector_store s of
        None \<Rightarrow> 0
      | Some vs \<Rightarrow> length (filter (\<lambda>(i, doc, v). md_document_id (metadata doc) = Some did) vs))"

definition chunk_count_inv :: "store \<Rightarrow> bool" where
  "chunk_count_inv s =
     (\<forall>did dm. map_of (document_metadata s) did = Some dm \<longrightarrow> chunk_count dm = stored_chunks did s)"

text \<open>
  The arguments \<open>ingest_document\<close> (api/ingest.py) passes to \<open>add_documents\<close>: one
  metadata dict per chunk, each carrying the document's id, at least one chunk, and
  \<open>chunk_count = len(chunks)\<close>.
\<close>

definition ingest_call :: "string list \<Rightarrow> chunk_metadata list \<Rightarrow> DocumentMetadata \<Rightarrow> bool" where
  "ingest_call texts metadatas dm =
     (texts \<noteq> [] \<and> length metadatas = length texts \<and> chunk_count dm = length texts
      \<and> (\<forall>m \<in> set metadatas. md_document_id m = Some (document_id dm)))"

text \<open>
  The stores reached from an empty one by inserts of that shape under a document id that
  is not in the metadata map, by deletions and by clears.
\<close>

inductive reachable_fresh :: "store \<Rightarrow> bool" where
  start: "vector_store s = None \<Longrightarrow> document_metadata s = [] \<Longrightarrow> reachable_fresh s"
| insert: "reachable_fresh s \<Longrightarrow> ingest_call texts metadatas dm
     \<Longrightarrow> map_of (document_metadata s) (document_id dm) = None
     \<Longrightarrow> reachable_fresh (snd (add_documents embeddings w texts metadatas dm s))"
| delete: "reachable_fresh s \<Longrightarrow> reachable_fresh (snd (delete_document w did s))"
| clear: "reachable_fresh s \<Longrightarrow> reachable_fresh (snd (clear unlink s))"

text \<open>What the proof of the invariant carries along: docstore ids are distinct and below
  the counter, and every chunk in the index belongs to a recorded document.\<close>

definition index_wf :: "store \<Rightarrow> bool" where
  "index_wf s =
     (case vector_store s of
        None \<Rightarrow> True
      | Some vs \<Rightarrow>
          distinct (map fst vs)
          \<and> (\<forall>(i, doc, v) \<in> set vs. i < next_uuid s
                \<and> (\<exists>did. md_document_id (metadata doc) = Some did
                      \<and> map_of (document_metadata s) did \<noteq> None)))"

section \<open>Retriever (app/rag/retriever.py)\<close>

record SourceReference =
  document :: string
  chunk_id :: string
  content_preview :: "string option"

record RetrievalResult =
  context' :: string
  sources :: "SourceReference list"
  has_relevant_content :: bool
  top_score :: real

definition separator :: string where
  "separator = [CHR 0x0A, CHR 0x0A] @ ''---'' @ [CHR 0x0A, CHR 0x0A]"

definition source_of :: "Document \<Rightarrow> SourceReference" where
  "source_of doc =
     \<lparr>document = (case md_filename (metadata doc) of Some f \<Rightarrow> f | None \<Rightarrow> ''Unknown''),
      chunk_id = (case md_chunk_id (metadata doc) of Some c \<Rightarrow> c | None \<Rightarrow> ''unknown''),
      content_preview = Some (truncate_text (page_content doc) 150 ''...'')\<rparr>"

text \<open>The loop of \<open>retrieve\<close> over the hits, with its three accumulators.\<close>

fun build_context ::
  "(Document \<times> real) list \<Rightarrow> string list \<times> SourceReference list \<times> real
     \<Rightarrow> string list \<times> SourceReference list \<times> real" where
  "build_context [] acc = acc"
| "build_context ((doc, score) # results) (context_parts, srcs, best) =
     build_context results
       (context_parts @ [page_content doc], srcs @ [source_of doc], max best score)"

definition retrieve ::
  "(string \<Rightarrow> real list) \<Rightarrow> settings \<Rightarrow> string \<Rightarrow> nat option \<Rightarrow> real option \<Rightarrow> store
     \<Rightarrow> RetrievalResult" where
  "retrieve embeddings cfg query k score_threshold s =
     (let k1 = or_default k (retrieval_top_k cfg);
          score_threshold1 = or_default score_threshold (retrieval_score_threshold cfg);
          results = similarity_search embeddings cfg query k1 (Some score_threshold1) s
      in if results = []
         then \<lparr>context' = [], sources = [], has_relevant_content = False, top_score = 0\<rparr>
         else
           (case build_context results ([], [], 0) of
              (context_parts, srcs, best) \<Rightarrow>
                \<lparr>context' = join separator context_parts, sources = srcs,
                 has_relevant_content = True, top_score = best\<rparr>))"

definition retrieve_with_history ::
  "(string \<Rightarrow> real list) \<Rightarrow> settings \<Rightarrow> string \<Rightarrow> string \<Rightarrow> nat option \<Rightarrow> store
     \<Rightarrow> RetrievalResult" where
  "retrieve_with_history embeddings cfg query conversation_context k s =
     (let enhanced_query =
            (if conversation_context \<noteq> []
             then ''Context: '' @ conversation_context @ [CHR 0x0A, CHR 0x0A] @ ''Question: '' @ query
             else query)
      in retrieve embeddings cfg enhanced_query k None s)"

text \<open>The hits \<open>retrieve\<close> works on: the search it calls, with the defaults filled in.\<close>

definition hits ::
  "(string \<Rightarrow> real list) \<Rightarrow> settings \<Rightarrow> string \<Rightarrow> nat option \<Rightarrow> real option \<Rightarrow> store
     \<Rightarrow> (Document \<times> real) list" where
  "hits embeddings cfg query k score_threshold s =
     similarity_search embeddings cfg query (or_default k (retrieval_top_k cfg))
       (Some (or_default score_threshold (retrieval_score_threshold cfg))) s"

section \<open>Sample data\<close>

definition length_embedding :: "string \<Rightarrow> real list" where
  "length_embedding t = [real (length t)]"

definition chunk_md :: "string \<Rightarrow> chunk_metadata" where
  "chunk_md did =
     \<lparr>md_document_id = Some did, md_chunk_id = Some (did @ ''_chunk_0000''), md_chunk_index = Some 0,
      md_filename = Some ''f.txt'', md_file_type = Some ''txt''\<rparr>"

definition doc_record :: "string \<Rightarrow> nat \<Rightarrow> DocumentMetadata" where
  "doc_record did n =
     \<lparr>document_id = did, filename = ''f.txt'', file_type = ''txt'', file_size = 3,
      chunk_count = n, created_at = [], content_hash = None, status = ''indexed''\<rparr>"

definition empty_store :: store where
  "empty_store =
     \<lparr>vector_store = None, document_metadata = [], next_uuid = 0,
      files = \<lparr>index_file = None, metadata_file = None\<rparr>, logged = []\<rparr>"

definition io_ok :: io where
  "io_ok = \<lparr>save_local = Succeeds, write_metadata = Succeeds\<rparr>"

definition io_broken :: io where
  "io_broken = \<lparr>save_local = Raises None, write_metadata = Raises None\<rparr>"

definition store1 :: store where
  "store1 = snd (add_documents length_embedding io_ok [''abc''] [chunk_md ''d1'']
                   (doc_record ''d1'' 1) empty_store)"

definition store2 :: store where
  "store2 = snd (add_documents length_embedding io_ok [''abcdef''] [chunk_md ''d2'']
                   (doc_record ''d2'' 1) store1)"

definition io_metadata_broken :: io where
  "io_metadata_broken = \<lparr>save_local = Succeeds, write_metadata = Raises None\<rparr>"

lemmas sample_defs = store1_def store2_def add_documents_def length_embedding_def chunk_md_def
  doc_record_def empty_store_def io_ok_def io_broken_def io_metadata_broken_def save_store_def
  save_metadata_def Let_def

lemmas search_defs = similarity_search_def similarity_search_with_score_def or_default_def
  default_settings_def l2_distance_def

section \<open>Properties of the conversation memory\<close>

lemma last_n_append_last_n: "last_n n (last_n n xs @ ys) = last_n n (xs @ ys)"
  by (cases "n \<le> length xs") (simp_all add: last_n_def add.commute)

lemma lookup_add_turn_same:
  "map_of (histories (add_turn sid u a m)) sid =
     Some (last_n 20 (current sid m
        @ [\<lparr>role = ''user'', content = u\<rparr>, \<lparr>role = ''assistant'', content = a\<rparr>]))"
  by (simp add: add_turn_def current_def Let_def update_conv' last_n_def)

lemma lookup_add_turn_other:
  "sid' \<noteq> sid \<Longrightarrow> map_of (histories (add_turn sid u a m)) sid' = map_of (histories m) sid'"
  by (simp add: add_turn_def Let_def update_conv')

lemma fst_get_history: "fst (get_history sid m) = current sid m"
  by (simp add: get_history_def current_def split: option.splits)

lemma current_add_turns:
  assumes "length (current sid m) \<le> 20"
  shows "current sid (add_turns ts m) = last_n 20 (current sid m @ appended sid ts)"
  using assms
proof (induction ts arbitrary: m)
  case Nil
  then show ?case by (simp add: last_n_def)
next
  case (Cons t ts)
  obtain s u a where t: "t = (s, u, a)" by (cases t)
  show ?case
  proof (cases "s = sid")
    case True
    have c: "current sid (add_turn sid u a m) =
        last_n 20 (current sid m
          @ [\<lparr>role = ''user'', content = u\<rparr>, \<lparr>role = ''assistant'', content = a\<rparr>])"
      by (simp add: current_def lookup_add_turn_same)
    then have "length (current sid (add_turn sid u a m)) \<le> 20"
      by (simp add: last_n_def)
    from Cons.IH[OF this] show ?thesis
      using True t c by (simp add: last_n_append_last_n)
  next
    case False
    have c: "current sid (add_turn s u a m) = current sid m"
      using False by (simp add: current_def lookup_add_turn_other)
    with Cons.prems have "length (current sid (add_turn s u a m)) \<le> 20" by simp
    from Cons.IH[OF this] show ?thesis using False t c by simp
  qed
qed

lemma length_appended: "length (appended sid ts) = 2 * calls_on sid ts"
  by (induction ts) (auto simp: calls_on_def)

text \<open>
  Claim C5. Take a session without history and any sequence of \<open>add_turn\<close> calls, of
  which \<open>N\<close> are on that session (calls on other sessions may come in between). Afterwards
  \<open>get_history\<close> of the session returns the last 20 of the messages those \<open>N\<close> calls
  appended (all of them when there are fewer), in the order they were appended, and its
  length is \<open>min (2 * N) 20\<close>.
\<close>

theorem add_turn_history_length:
  assumes "fst (get_history sid m) = []"
  shows "fst (get_history sid (add_turns ts m)) = last_n 20 (appended sid ts)
       \<and> length (fst (get_history sid (add_turns ts m))) = min (2 * calls_on sid ts) 20"
proof -
  have e: "current sid m = []" using assms by (simp add: fst_get_history)
  then have "current sid (add_turns ts m) = last_n 20 (appended sid ts)"
    using current_add_turns[of sid m ts] by simp
  then show ?thesis
    by (simp add: fst_get_history last_n_def length_appended)
qed

theorem add_turn_history_length_witness:
  "fst (get_history ''s'' new_manager) = []
   \<and> fst (get_history ''s'' (add_turns [(''s'', ''q1'', ''a1''), (''t'', ''x'', ''y'')] new_manager))
       = [\<lparr>role = ''user'', content = ''q1''\<rparr>, \<lparr>role = ''assistant'', content = ''a1''\<rparr>]
   \<and> length (fst (get_history ''s''
        (add_turns [(''s'', ''q1'', ''a1''), (''t'', ''x'', ''y'')] new_manager))) = 2"
proof -
  have h: "fst (get_history ''s'' new_manager) = []"
    by (simp add: get_history_def new_manager_def)
  show ?thesis
    using h add_turn_history_length[OF h, of "[(''s'', ''q1'', ''a1''), (''t'', ''x'', ''y'')]"]
    by (simp add: last_n_def calls_on_def)
qed

lemma alternating_append2:
  "alternating h \<Longrightarrow> role x = ''user'' \<Longrightarrow> role y = ''assistant'' \<Longrightarrow> alternating (h @ [x, y])"
  by (induction h rule: alternating.induct) auto

lemma alternating_even: "alternating h \<Longrightarrow> even (length h)"
  by (induction h rule: alternating.induct) auto

lemma alternating_drop2: "alternating h \<Longrightarrow> alternating (drop 2 h)"
  by (induction h rule: alternating.induct) (auto simp: numeral_2_eq_2)

lemma good_add:
  assumes "even (length h)" "length h \<le> 20" "alternating h"
  shows "even (length (last_n 20 (h @ [\<lparr>role = ''user'', content = u\<rparr>, \<lparr>role = ''assistant'', content = a\<rparr>])))
       \<and> length (last_n 20 (h @ [\<lparr>role = ''user'', content = u\<rparr>, \<lparr>role = ''assistant'', content = a\<rparr>])) \<le> 20
       \<and> alternating (last_n 20 (h @ [\<lparr>role = ''user'', content = u\<rparr>, \<lparr>role = ''assistant'', content = a\<rparr>]))"
proof -
  let ?h2 = "h @ [\<lparr>role = ''user'', content = u\<rparr>, \<lparr>role = ''assistant'', content = a\<rparr>]"
  have alt: "alternating ?h2" using assms(3) by (simp add: alternating_append2)
  show ?thesis
  proof (cases "length h = 20")
    case True
    then have "last_n 20 ?h2 = drop 2 ?h2" by (simp add: last_n_def)
    then show ?thesis
      using alt alternating_drop2[OF alt] alternating_even[OF alternating_drop2[OF alt]] True
      by simp
  next
    case False
    with assms have le: "length h \<le> 18" by presburger
    then have "last_n 20 ?h2 = ?h2" by (simp add: last_n_def)
    then show ?thesis using alt assms le by simp
  qed
qed

lemma inv_add_turn: "history_inv m \<Longrightarrow> history_inv (add_turn sid u a m)"
  unfolding history_inv_def
proof (intro allI impI)
  fix s h
  assume inv: "\<forall>sid h. map_of (histories m) sid = Some h \<longrightarrow>
      even (length h) \<and> length h \<le> 20 \<and> alternating h"
    and l: "map_of (histories (add_turn sid u a m)) s = Some h"
  show "even (length h) \<and> length h \<le> 20 \<and> alternating h"
  proof (cases "s = sid")
    case True
    have "even (length (current sid m)) \<and> length (current sid m) \<le> 20 \<and> alternating (current sid m)"
      using inv by (auto simp: current_def split: option.splits)
    then show ?thesis using good_add[of "current sid m" u a] l True
      by (simp add: lookup_add_turn_same)
  next
    case False
    then show ?thesis using inv l by (simp add: lookup_add_turn_other)
  qed
qed

lemma inv_get_history: "history_inv m \<Longrightarrow> history_inv (snd (get_history sid m))"
  by (auto simp: history_inv_def get_history_def update_conv' split: option.splits if_splits)

lemma inv_get_recent_context: "history_inv m \<Longrightarrow> history_inv (snd (get_recent_context sid n m))"
  using inv_get_history[of m sid]
  by (auto simp: get_recent_context_def split: prod.splits if_splits)

lemma inv_clear_session: "history_inv m \<Longrightarrow> history_inv (snd (clear_session sid m))"
  by (auto simp: history_inv_def clear_session_def Let_def delete_conv' split: if_splits)

lemma inv_clear_all: "history_inv m \<Longrightarrow> history_inv (snd (clear_all m))"
  by (simp add: history_inv_def clear_all_def)

text \<open>
  Claim C6. Every history of a new manager is an even-length sequence of alternating
  user and assistant messages of length at most 20, and each operation of the manager
  (\<open>get_history\<close>, \<open>get_recent_context\<close>, \<open>add_turn\<close>, \<open>clear_session\<close>, \<open>clear_all\<close>,
  \<open>list_sessions\<close>) leaves every history so when it finds every history so.
\<close>

theorem history_invariant:
  "history_inv new_manager \<and> (\<forall>m op. history_inv m \<longrightarrow> history_inv (run_op op m))"
proof (intro conjI allI impI)
  show "history_inv new_manager" by (simp add: history_inv_def new_manager_def)
next
  fix m op assume "history_inv m"
  then show "history_inv (run_op op m)"
    by (cases op)
      (simp_all add: inv_add_turn inv_get_history inv_get_recent_context inv_clear_session
        inv_clear_all)
qed

theorem history_invariant_witness:
  "history_inv new_manager
   \<and> history_inv (run_op (AddTurn ''s'' ''q1'' ''a1'') new_manager)
   \<and> map_of (histories (run_op (AddTurn ''s'' ''q1'' ''a1'') new_manager)) ''s''
       = Some [\<lparr>role = ''user'', content = ''q1''\<rparr>, \<lparr>role = ''assistant'', content = ''a1''\<rparr>]
   \<and> even (length [\<lparr>role = ''user'', content = ''q1''\<rparr>, \<lparr>role = ''assistant'', content = ''a1''\<rparr>])
   \<and> alternating [\<lparr>role = ''user'', content = ''q1''\<rparr>, \<lparr>role = ''assistant'', content = ''a1''\<rparr>]"
proof -
  have l: "map_of (histories (run_op (AddTurn ''s'' ''q1'' ''a1'') new_manager)) ''s''
       = Some [\<lparr>role = ''user'', content = ''q1''\<rparr>, \<lparr>role = ''assistant'', content = ''a1''\<rparr>]"
    by (simp add: add_turn_def new_manager_def)
  have i: "history_inv new_manager" using history_invariant by blast
  then have "history_inv (run_op (AddTurn ''s'' ''q1'' ''a1'') new_manager)"
    using history_invariant by blast
  then show ?thesis using i l by (simp add: history_inv_def)
qed

section \<open>Properties of the vector store\<close>

lemma vector_store_save_metadata [simp]: "vector_store (save_metadata w s) = vector_store s"
  by (simp add: save_metadata_def split: outcome.splits)

lemma document_metadata_save_metadata [simp]:
  "document_metadata (save_metadata w s) = document_metadata s"
  by (simp add: save_metadata_def split: outcome.splits)

lemma vector_store_save_store [simp]: "vector_store (save_store w s) = vector_store s"
  by (simp add: save_store_def split: outcome.splits option.splits)

lemma document_metadata_save_store [simp]:
  "document_metadata (save_store w s) = document_metadata s"
  by (simp add: save_store_def split: outcome.splits option.splits)

lemma next_uuid_save_store [simp]: "next_uuid (save_store w s) = next_uuid s"
  by (simp add: save_store_def save_metadata_def split: outcome.splits option.splits)

lemma logged_save_store:
  "logged (save_store w s) =
     logged s @ (if vector_store s = None then []
                 else case save_local w of
                        Raises l \<Rightarrow> [LogError ''Failed to save vector store'']
                      | Succeeds \<Rightarrow> (case write_metadata w of
                            Raises l \<Rightarrow> [LogError ''Failed to save metadata'']
                          | Succeeds \<Rightarrow> []))"
  by (auto simp: save_store_def save_metadata_def split: option.splits outcome.splits)

text \<open>
  Claim C8. For a document id that is not in the metadata map, \<open>delete_document\<close>
  returns \<open>False\<close> without raising, and the index, the metadata map and the persisted
  files are what they were (the call only logs a warning).
\<close>

theorem delete_unknown_document:
  assumes "get_document did s = None"
  shows "delete_document w did s
           = (False, s\<lparr>logged := logged s @ [LogWarning (''Document '' @ did @ '' not found'')]\<rparr>)
       \<and> vector_store (snd (delete_document w did s)) = vector_store s
       \<and> document_metadata (snd (delete_document w did s)) = document_metadata s
       \<and> files (snd (delete_document w did s)) = files s"
  using assms by (simp add: delete_document_def get_document_def)

theorem delete_unknown_document_witness:
  "get_document ''doc_x'' empty_store = None
   \<and> fst (delete_document io_ok ''doc_x'' empty_store) = False
   \<and> vector_store (snd (delete_document io_ok ''doc_x'' empty_store)) = None
   \<and> document_metadata (snd (delete_document io_ok ''doc_x'' empty_store)) = []
   \<and> files (snd (delete_document io_ok ''doc_x'' empty_store))
       = \<lparr>index_file = None, metadata_file = None\<rparr>"
proof -
  have h: "get_document ''doc_x'' empty_store = None"
    by (simp add: get_document_def empty_store_def)
  show ?thesis using h delete_unknown_document[OF h, of io_ok]
    by (simp add: empty_store_def)
qed

lemma filter_results_docs: "fst ` set (filter_results t rs) \<subseteq> fst ` set rs"
  by (induction t rs rule: filter_results.induct) (auto simp: Let_def)

lemma filter_results_ge: "(doc, sim) \<in> set (filter_results t rs) \<Longrightarrow> sim \<ge> t"
  by (induction t rs rule: filter_results.induct) (auto simp: Let_def split: if_splits)

lemma search_with_score_docs:
  "fst ` set (similarity_search_with_score e vs q k) \<subseteq> (\<lambda>(i, doc, v). doc) ` set vs"
proof -
  have "set (similarity_search_with_score e vs q k)
      \<subseteq> set (map (\<lambda>(i, doc, v). (doc, l2_distance (e q) v)) vs)"
    unfolding similarity_search_with_score_def
    using set_take_subset[of k "sort_key snd (map (\<lambda>(i, doc, v). (doc, l2_distance (e q) v)) vs)"]
    by simp
  then show ?thesis by force
qed

lemma search_docs:
  assumes "(doc, sim) \<in> set (similarity_search e cfg q k thr s)"
  shows "\<exists>vs i v. vector_store s = Some vs \<and> (i, doc, v) \<in> set vs"
proof (cases "vector_store s")
  case None
  with assms show ?thesis by (simp add: similarity_search_def)
next
  case (Some vs)
  with assms have "doc \<in> fst ` set (filter_results (or_default thr (retrieval_score_threshold cfg))
      (similarity_search_with_score e vs q k))"
    by (force simp: similarity_search_def Let_def)
  then have "doc \<in> (\<lambda>(i, doc, v). doc) ` set vs"
    using filter_results_docs search_with_score_docs by blast
  with Some show ?thesis by auto
qed

lemma docs_to_delete_mem:
  "(i, doc, v) \<in> set vs \<Longrightarrow> md_document_id (metadata doc) = Some did
     \<Longrightarrow> i \<in> set (docs_to_delete did vs)"
  by (force simp: docs_to_delete_def)

lemma deleted_chunks_gone:
  assumes "fst (delete_document w did s)"
    and "vector_store (snd (delete_document w did s)) = Some vs'"
    and "(i, doc, v) \<in> set vs'"
  shows "md_document_id (metadata doc) \<noteq> Some did"
proof
  assume m: "md_document_id (metadata doc) = Some did"
  from assms(1) have known: "map_of (document_metadata s) did \<noteq> None"
    by (auto simp: delete_document_def split: if_splits)
  obtain vs where vs: "vector_store s = Some vs"
    using assms(2) known by (cases "vector_store s") (auto simp: delete_document_def Let_def)
  show False
  proof (cases "docs_to_delete did vs = []")
    case True
    then have "vs' = vs" using assms(2) known vs by (simp add: delete_document_def Let_def)
    then show False using docs_to_delete_mem[of i doc v vs did] m assms(3) True by simp
  next
    case False
    then have "vs' = faiss_delete (docs_to_delete did vs) vs"
      using assms(2) known vs by (simp add: delete_document_def Let_def)
    then have "(i, doc, v) \<in> set vs" "i \<notin> set (docs_to_delete did vs)"
      using assms(3) by (auto simp: faiss_delete_def)
    then show False using docs_to_delete_mem[of i doc v vs did] m by simp
  qed
qed

text \<open>
  Claim C7. When \<open>delete_document\<close> of a document id returns \<open>True\<close>, then in the store it
  leaves behind \<open>get_document\<close> of that id is \<open>None\<close>, and no search, whatever the query,
  \<open>k\<close> and threshold, returns a chunk whose metadata carries that id.
\<close>

theorem deleted_document_not_found:
  assumes "fst (delete_document w did s)"
  shows "get_document did (snd (delete_document w did s)) = None
       \<and> (\<forall>embeddings cfg query k score_threshold.
            \<forall>(doc, sim) \<in> set (similarity_search embeddings cfg query k score_threshold
                                  (snd (delete_document w did s))).
              md_document_id (metadata doc) \<noteq> Some did)"
proof (intro conjI allI)
  show "get_document did (snd (delete_document w did s)) = None"
    using assms
    by (auto simp: delete_document_def get_document_def Let_def delete_conv' split: if_splits)
next
  fix embeddings cfg query k score_threshold
  show "\<forall>(doc, sim) \<in> set (similarity_search embeddings cfg query k score_threshold
                                  (snd (delete_document w did s))).
              md_document_id (metadata doc) \<noteq> Some did"
    using search_docs deleted_chunks_gone[OF assms] by fast
qed

theorem deleted_document_not_found_witness:
  "fst (delete_document io_ok ''d1'' store2)
   \<and> get_document ''d1'' (snd (delete_document io_ok ''d1'' store2)) = None
   \<and> similarity_search length_embedding default_settings ''ab'' 5 (Some (1 / 100))
        (snd (delete_document io_ok ''d1'' store2))
       = [(\<lparr>page_content = ''abcdef'', metadata = chunk_md ''d2''\<rparr>, 1 / 17)]
   \<and> md_document_id (metadata \<lparr>page_content = ''abcdef'', metadata = chunk_md ''d2''\<rparr>)
       \<noteq> Some ''d1''"
proof -
  have h: "fst (delete_document io_ok ''d1'' store2)"
    by (simp add: delete_document_def sample_defs)
  have r: "similarity_search length_embedding default_settings ''ab'' 5 (Some (1 / 100))
        (snd (delete_document io_ok ''d1'' store2))
       = [(\<lparr>page_content = ''abcdef'', metadata = chunk_md ''d2''\<rparr>, 1 / 17)]"
    by (simp add: delete_document_def docs_to_delete_def faiss_delete_def sample_defs search_defs)
  show ?thesis
    using h r deleted_document_not_found[OF h]
    by (simp add: chunk_md_def)
qed

lemma faiss_delete_Nil: "faiss_delete [] vs = vs"
  by (simp add: faiss_delete_def)

lemma delete_document_known:
  assumes "map_of (document_metadata s) did \<noteq> None"
  shows "fst (delete_document w did s) = True"
    and "document_metadata (snd (delete_document w did s)) = AList.delete did (document_metadata s)"
    and "vector_store (snd (delete_document w did s))
        = map_option (\<lambda>vs. faiss_delete (docs_to_delete did vs) vs) (vector_store s)"
    and "logged (snd (delete_document w did s))
        = logged s @ (if vector_store s = None then []
              else case save_local w of
                     Raises l \<Rightarrow> [LogError ''Failed to save vector store'']
                   | Succeeds \<Rightarrow> (case write_metadata w of
                         Raises l \<Rightarrow> [LogError ''Failed to save metadata'']
                       | Succeeds \<Rightarrow> []))"
  using assms
  by (cases "vector_store s";
      auto simp: delete_document_def Let_def logged_save_store faiss_delete_Nil)+

lemma add_documents_result_io:
  "fst (add_documents embeddings w texts metadatas dm s)
     = fst (add_documents embeddings w' texts metadatas dm s)"
  by (auto simp: add_documents_def Let_def)

lemma add_documents_index_io:
  "vector_store (snd (add_documents embeddings w texts metadatas dm s))
     = vector_store (snd (add_documents embeddings w' texts metadatas dm s))"
  by (auto simp: add_documents_def Let_def)

lemma add_documents_metadata_io:
  "document_metadata (snd (add_documents embeddings w texts metadatas dm s))
     = document_metadata (snd (add_documents embeddings w' texts metadatas dm s))"
  by (auto simp: add_documents_def Let_def)

lemma delete_document_result_io:
  "fst (delete_document w did s) = fst (delete_document w' did s)"
  by (auto simp: delete_document_def Let_def)

lemma delete_document_index_io:
  "vector_store (snd (delete_document w did s))
     = vector_store (snd (delete_document w' did s))"
  by (auto simp: delete_document_def Let_def)

lemma delete_document_metadata_io:
  "document_metadata (snd (delete_document w did s))
     = document_metadata (snd (delete_document w' did s))"
  by (auto simp: delete_document_def Let_def)

lemma add_documents_logs_index_failure:
  "save_local w \<noteq> Succeeds \<and> zip texts metadatas \<noteq> [] \<longrightarrow>
     logged (snd (add_documents embeddings w texts metadatas dm s))
       = logged s @ [LogError ''Failed to save vector store'']"
  by (auto simp: add_documents_def Let_def logged_save_store split: outcome.splits)

lemma add_documents_logs_metadata_failure:
  "save_local w = Succeeds \<and> write_metadata w \<noteq> Succeeds \<and> zip texts metadatas \<noteq> [] \<longrightarrow>
     logged (snd (add_documents embeddings w texts metadatas dm s))
       = logged s @ [LogError ''Failed to save metadata'']"
  by (auto simp: add_documents_def Let_def logged_save_store split: outcome.splits)

lemma add_documents_returns:
  "zip texts metadatas \<noteq> [] \<longrightarrow>
     fst (add_documents embeddings w texts metadatas dm s)
       = Inr (map (\<lambda>(i, meta). case md_chunk_id meta of
                                  Some c \<Rightarrow> c | None \<Rightarrow> ''chunk_'' @ string_of_nat i)
                (enumerate 0 metadatas))
     \<and> get_document (document_id dm) (snd (add_documents embeddings w texts metadatas dm s))
         = Some dm"
  by (auto simp: add_documents_def Let_def update_conv' get_document_def)

lemma delete_document_returns:
  "get_document did s \<noteq> None \<longrightarrow>
     fst (delete_document w did s) = True
     \<and> document_metadata (snd (delete_document w did s))
         = AList.delete did (document_metadata s)
     \<and> vector_store (snd (delete_document w did s))
         = map_option (\<lambda>vs. faiss_delete (docs_to_delete did vs) vs) (vector_store s)"
  using delete_document_known(1,2,3)[of s did w] by (auto simp: get_document_def)

lemma delete_document_logs_index_failure:
  "get_document did s \<noteq> None \<and> vector_store s \<noteq> None \<and> save_local w \<noteq> Succeeds \<longrightarrow>
     logged (snd (delete_document w did s))
       = logged s @ [LogError ''Failed to save vector store'']"
  using delete_document_known(4)[of s did w]
  by (auto simp: get_document_def split: outcome.splits)

lemma delete_document_logs_metadata_failure:
  "get_document did s \<noteq> None \<and> vector_store s \<noteq> None
     \<and> save_local w = Succeeds \<and> write_metadata w \<noteq> Succeeds \<longrightarrow>
     logged (snd (delete_document w did s))
       = logged s @ [LogError ''Failed to save metadata'']"
  using delete_document_known(4)[of s did w]
  by (auto simp: get_document_def split: outcome.splits)

lemma delete_document_no_index:
  "get_document did s \<noteq> None \<and> vector_store s = None \<longrightarrow>
     logged (snd (delete_document w did s)) = logged s
     \<and> files (snd (delete_document w did s)) = files s"
  by (auto simp: get_document_def delete_document_def Let_def save_store_def)


text \<open>
  Claim C2, as stated, fails: with both writes raising, \<open>add_documents\<close> still returns
  the chunk ids and \<open>delete_document\<close> still returns \<open>True\<close>; no failure reaches the
  caller.
\<close>

theorem persistence_failure_not_surfaced:
  "fst (add_documents length_embedding io_broken [''abc''] [chunk_md ''d1'']
          (doc_record ''d1'' 1) empty_store) = Inr [''d1_chunk_0000'']
   \<and> fst (delete_document io_broken ''d1'' store1) = True"
  by (simp add: delete_document_def sample_defs)

text \<open>
  Claim C2, amended. A failure to persist the index or the metadata is caught inside
  \<open>_save_store\<close> / \<open>_save_metadata\<close> and logged at error level; it is not surfaced. For
  every insert and every \<open>delete_document\<close> call, the value returned and the in-memory
  index and metadata map are the same whatever the writes do: an insert of a non-empty
  batch returns the chunk ids and records the document, a \<open>delete_document\<close> of a known
  id returns \<open>True\<close>, removes the record and removes the document's chunks from the
  index. Whenever the call attempts a write (an insert of a non-empty batch; a
  \<open>delete_document\<close> of a known id on an initialised index) and the write fails, the call
  adds exactly one error line to the log: \<open>Failed to save vector store\<close> when the index
  is not written, \<open>Failed to save metadata\<close> when the index is written and the metadata
  is not. A \<open>delete_document\<close> of a known id while the index is \<open>None\<close> attempts no
  write: it logs nothing and leaves the files as they were.
\<close>

theorem persistence_failure_logged:
  "fst (add_documents embeddings w texts metadatas dm s)
     = fst (add_documents embeddings w' texts metadatas dm s)
   \<and> vector_store (snd (add_documents embeddings w texts metadatas dm s))
     = vector_store (snd (add_documents embeddings w' texts metadatas dm s))
   \<and> document_metadata (snd (add_documents embeddings w texts metadatas dm s))
     = document_metadata (snd (add_documents embeddings w' texts metadatas dm s))
   \<and> fst (delete_document w did s) = fst (delete_document w' did s)
   \<and> vector_store (snd (delete_document w did s)) = vector_store (snd (delete_document w' did s))
   \<and> document_metadata (snd (delete_document w did s))
     = document_metadata (snd (delete_document w' did s))
   \<and> (save_local w \<noteq> Succeeds \<and> zip texts metadatas \<noteq> [] \<longrightarrow>
        logged (snd (add_documents embeddings w texts metadatas dm s))
          = logged s @ [LogError ''Failed to save vector store''])
   \<and> (save_local w = Succeeds \<and> write_metadata w \<noteq> Succeeds \<and> zip texts metadatas \<noteq> [] \<longrightarrow>
        logged (snd (add_documents embeddings w texts metadatas dm s))
          = logged s @ [LogError ''Failed to save metadata''])
   \<and> (zip texts metadatas \<noteq> [] \<longrightarrow>
        fst (add_documents embeddings w texts metadatas dm s)
          = Inr (map (\<lambda>(i, meta). case md_chunk_id meta of
                                     Some c \<Rightarrow> c | None \<Rightarrow> ''chunk_'' @ string_of_nat i)
                   (enumerate 0 metadatas))
        \<and> get_document (document_id dm) (snd (add_documents embeddings w texts metadatas dm s))
            = Some dm)
   \<and> (get_document did s \<noteq> None \<longrightarrow>
        fst (delete_document w did s) = True
        \<and> document_metadata (snd (delete_document w did s))
            = AList.delete did (document_metadata s)
        \<and> vector_store (snd (delete_document w did s))
            = map_option (\<lambda>vs. faiss_delete (docs_to_delete did vs) vs) (vector_store s))
   \<and> (get_document did s \<noteq> None \<and> vector_store s \<noteq> None \<and> save_local w \<noteq> Succeeds \<longrightarrow>
        logged (snd (delete_document w did s))
          = logged s @ [LogError ''Failed to save vector store''])
   \<and> (get_document did s \<noteq> None \<and> vector_store s \<noteq> None
        \<and> save_local w = Succeeds \<and> write_metadata w \<noteq> Succeeds \<longrightarrow>
        logged (snd (delete_document w did s))
          = logged s @ [LogError ''Failed to save metadata''])
   \<and> (get_document did s \<noteq> None \<and> vector_store s = None \<longrightarrow>
        logged (snd (delete_document w did s)) = logged s
        \<and> files (snd (delete_document w did s)) = files s)"
  by (intro conjI) (rule add_documents_result_io add_documents_index_io add_documents_metadata_io delete_document_result_io delete_document_index_io delete_document_metadata_io add_documents_logs_index_failure add_documents_logs_metadata_failure add_documents_returns delete_document_returns delete_document_logs_index_failure delete_document_logs_metadata_failure delete_document_no_index)+

theorem persistence_failure_logged_witness:
  "save_local io_broken \<noteq> Succeeds \<and> zip [''abc''] [chunk_md ''d1''] \<noteq> []
   \<and> logged (snd (add_documents length_embedding io_broken [''abc''] [chunk_md ''d1'']
        (doc_record ''d1'' 1) empty_store)) = [LogError ''Failed to save vector store'']
   \<and> save_local io_metadata_broken = Succeeds \<and> write_metadata io_metadata_broken \<noteq> Succeeds
   \<and> logged (snd (add_documents length_embedding io_metadata_broken [''abc''] [chunk_md ''d1'']
        (doc_record ''d1'' 1) empty_store)) = [LogError ''Failed to save metadata'']
   \<and> vector_store (snd (add_documents length_embedding io_broken [''abc''] [chunk_md ''d1'']
        (doc_record ''d1'' 1) empty_store))
     = Some [(0, \<lparr>page_content = ''abc'', metadata = chunk_md ''d1''\<rparr>, [3])]
   \<and> get_document ''d1'' (snd (add_documents length_embedding io_broken [''abc'']
        [chunk_md ''d1''] (doc_record ''d1'' 1) empty_store)) = Some (doc_record ''d1'' 1)
   \<and> get_document ''d1'' store1 \<noteq> None \<and> vector_store store1 \<noteq> None
   \<and> fst (delete_document io_broken ''d1'' store1) = True
   \<and> logged (snd (delete_document io_broken ''d1'' store1))
       = [LogError ''Failed to save vector store'']
   \<and> logged (snd (delete_document io_metadata_broken ''d1'' store1))
       = [LogError ''Failed to save metadata'']
   \<and> vector_store (snd (delete_document io_broken ''d1'' store1)) = Some []
   \<and> document_metadata (snd (delete_document io_broken ''d1'' store1)) = []"
proof -
  note t1 = persistence_failure_logged[of length_embedding io_broken "[''abc'']"
      "[chunk_md ''d1'']" "doc_record ''d1'' 1" empty_store io_ok "''d1''"]
  note t2 = persistence_failure_logged[of length_embedding io_metadata_broken "[''abc'']"
      "[chunk_md ''d1'']" "doc_record ''d1'' 1" empty_store io_ok "''d1''"]
  note t3 = persistence_failure_logged[of length_embedding io_broken "[''abc'']"
      "[chunk_md ''d1'']" "doc_record ''d1'' 1" store1 io_ok "''d1''"]
  note t4 = persistence_failure_logged[of length_embedding io_metadata_broken "[''abc'']"
      "[chunk_md ''d1'']" "doc_record ''d1'' 1" store1 io_ok "''d1''"]
  have a: "save_local io_broken \<noteq> Succeeds \<and> zip [''abc''] [chunk_md ''d1''] \<noteq> []"
    by (simp add: io_broken_def)
  have b: "save_local io_metadata_broken = Succeeds \<and> write_metadata io_metadata_broken \<noteq> Succeeds"
    by (simp add: io_metadata_broken_def)
  have c: "vector_store (snd (add_documents length_embedding io_broken [''abc''] [chunk_md ''d1'']
        (doc_record ''d1'' 1) empty_store))
     = Some [(0, \<lparr>page_content = ''abc'', metadata = chunk_md ''d1''\<rparr>, [3])]"
    by (simp add: add_documents_def Let_def length_embedding_def empty_store_def)
  have d: "get_document ''d1'' store1 \<noteq> None \<and> vector_store store1 \<noteq> None"
    by (simp add: get_document_def sample_defs)
  have e: "logged store1 = []" "document_metadata store1 = [(''d1'', doc_record ''d1'' 1)]"
      "vector_store store1 = Some [(0, \<lparr>page_content = ''abc'', metadata = chunk_md ''d1''\<rparr>, [3])]"
      "logged empty_store = []"
    by (simp_all add: sample_defs)
  have f: "\<And>n. document_id (doc_record ''d1'' n) = ''d1''"
    by (simp add: doc_record_def)
  have g: "faiss_delete (docs_to_delete ''d1''
              [(0, \<lparr>page_content = ''abc'', metadata = chunk_md ''d1''\<rparr>, [3])])
              [(0, \<lparr>page_content = ''abc'', metadata = chunk_md ''d1''\<rparr>, [3])] = []"
    by (simp add: faiss_delete_def docs_to_delete_def chunk_md_def)
  have l1: "logged (snd (add_documents length_embedding io_broken [''abc''] [chunk_md ''d1'']
        (doc_record ''d1'' 1) empty_store)) = logged empty_store @ [LogError ''Failed to save vector store'']"
    using t1 a by blast
  have l2: "logged (snd (add_documents length_embedding io_metadata_broken [''abc''] [chunk_md ''d1'']
        (doc_record ''d1'' 1) empty_store)) = logged empty_store @ [LogError ''Failed to save metadata'']"
    using t2 a b by blast
  have l3: "get_document (document_id (doc_record ''d1'' 1))
        (snd (add_documents length_embedding io_broken [''abc'']
        [chunk_md ''d1''] (doc_record ''d1'' 1) empty_store)) = Some (doc_record ''d1'' 1)"
    using t1 a by blast
  have l4: "fst (delete_document io_broken ''d1'' store1) = True
      \<and> document_metadata (snd (delete_document io_broken ''d1'' store1))
            = AList.delete ''d1'' (document_metadata store1)
      \<and> vector_store (snd (delete_document io_broken ''d1'' store1))
            = map_option (\<lambda>vs. faiss_delete (docs_to_delete ''d1'' vs) vs) (vector_store store1)"
    using t3 d by blast
  have l5: "logged (snd (delete_document io_broken ''d1'' store1))
       = logged store1 @ [LogError ''Failed to save vector store'']"
    using t3 a d by blast
  have l6: "logged (snd (delete_document io_metadata_broken ''d1'' store1))
       = logged store1 @ [LogError ''Failed to save metadata'']"
    using t4 b d by blast
  show ?thesis
    using a b c d l1 l2 l3 l4 l5 l6 by (simp add: e f g)
qed

lemma length_filter_results: "length (filter_results t rs) \<le> length rs"
  by (induction t rs rule: filter_results.induct) (auto simp: Let_def)

lemma search_with_score_length: "length (similarity_search_with_score e vs q k) \<le> k"
  unfolding similarity_search_with_score_def by simp

lemma length_similarity_search: "length (similarity_search e cfg q k t s) \<le> k"
proof (cases "vector_store s")
  case None
  then show ?thesis by (simp add: similarity_search_def)
next
  case (Some vs)
  then show ?thesis
    using length_filter_results[of "or_default t (retrieval_score_threshold cfg)"
        "similarity_search_with_score e vs q k"]
      search_with_score_length[of e vs q k]
    by (simp add: similarity_search_def Let_def)
qed

lemma build_context_eq:
  "build_context rs (context_parts, srcs, best) =
     (context_parts @ map (\<lambda>(doc, sc). page_content doc) rs,
      srcs @ map (\<lambda>(doc, sc). source_of doc) rs,
      Max (insert best (snd ` set rs)))"
proof (induction rs arbitrary: context_parts srcs best)
  case Nil
  then show ?case by simp
next
  case (Cons r rs)
  obtain doc sc where r: "r = (doc, sc)" by (cases r)
  have "Max (insert (max best sc) (snd ` set rs)) = Max (insert best (insert sc (snd ` set rs)))"
    by (cases "snd ` set rs = {}") (simp_all add: max.assoc)
  then show ?case using Cons.IH r by simp
qed

lemma or_default_idem: "or_default (Some (or_default t d)) d = or_default t d"
  by (simp add: or_default_def split: option.splits)

lemma search_or_default:
  "similarity_search e cfg q k (Some (or_default t (retrieval_score_threshold cfg))) s
     = similarity_search e cfg q k t s"
  by (cases "vector_store s") (simp_all add: similarity_search_def or_default_idem)

lemma retrieve_search:
  "retrieve e cfg q k t s =
     (let hs = similarity_search e cfg q (or_default k (retrieval_top_k cfg)) t s
      in if hs = []
         then \<lparr>context' = [], sources = [], has_relevant_content = False, top_score = 0\<rparr>
         else \<lparr>context' = join separator (map (\<lambda>(doc, sim). page_content doc) hs),
               sources = map (\<lambda>(doc, sim). source_of doc) hs,
               has_relevant_content = True,
               top_score = Max (insert 0 (snd ` set hs))\<rparr>)"
  by (simp add: retrieve_def Let_def search_or_default build_context_eq)


text \<open>
  Claim C10. A \<open>score_threshold\<close> of 0.0 passed to \<open>similarity_search\<close>, and a \<open>k\<close> of 0
  or a \<open>score_threshold\<close> of 0.0 passed to \<open>retrieve\<close>, are not used: the call behaves
  as with \<open>None\<close>, that is with the configured value, 0.3 and 5 by default. The search
  asked for threshold zero filters the library's results with the configured threshold;
  \<open>retrieve\<close> asked for \<open>k = 0\<close> builds its result from the search with the configured
  \<open>k\<close>, and asked for threshold zero from the search with the configured threshold. So
  with the default settings a search asked for threshold zero still returns only chunks of
  similarity at least 0.3, and \<open>retrieve\<close> asked for zero and zero returns what the search
  with 5 and 0.3 finds, at most 5 sources.
\<close>

theorem zero_means_default:
  "similarity_search embeddings cfg query k (Some 0) s
     = similarity_search embeddings cfg query k None s
   \<and> similarity_search embeddings cfg query k (Some 0) s
       = similarity_search embeddings cfg query k (Some (retrieval_score_threshold cfg)) s
   \<and> retrieve embeddings cfg query (Some 0) score_threshold s
       = retrieve embeddings cfg query None score_threshold s
   \<and> retrieve embeddings cfg query (Some 0) score_threshold s
       = retrieve embeddings cfg query (Some (retrieval_top_k cfg)) score_threshold s
   \<and> retrieve embeddings cfg query ko (Some 0) s = retrieve embeddings cfg query ko None s
   \<and> retrieve embeddings cfg query ko (Some 0) s
       = retrieve embeddings cfg query ko (Some (retrieval_score_threshold cfg)) s
   \<and> retrieval_score_threshold default_settings = 3 / 10
   \<and> retrieval_top_k default_settings = 5
   \<and> (\<forall>(doc, sim) \<in> set (similarity_search embeddings default_settings query k (Some 0) s).
         sim \<ge> 3 / 10)
   \<and> similarity_search embeddings cfg query k (Some 0) s
       = (case vector_store s of
            None \<Rightarrow> []
          | Some vs \<Rightarrow> filter_results (retrieval_score_threshold cfg)
                         (similarity_search_with_score embeddings vs query k))
   \<and> retrieve embeddings cfg query (Some 0) score_threshold s
       = (let hs = similarity_search embeddings cfg query (retrieval_top_k cfg) score_threshold s
          in if hs = []
             then \<lparr>context' = [], sources = [], has_relevant_content = False, top_score = 0\<rparr>
             else \<lparr>context' = join separator (map (\<lambda>(doc, sim). page_content doc) hs),
                   sources = map (\<lambda>(doc, sim). source_of doc) hs,
                   has_relevant_content = True,
                   top_score = Max (insert 0 (snd ` set hs))\<rparr>)
   \<and> retrieve embeddings cfg query (Some (Suc n)) (Some 0) s
       = (let hs = similarity_search embeddings cfg query (Suc n)
                     (Some (retrieval_score_threshold cfg)) s
          in if hs = []
             then \<lparr>context' = [], sources = [], has_relevant_content = False, top_score = 0\<rparr>
             else \<lparr>context' = join separator (map (\<lambda>(doc, sim). page_content doc) hs),
                   sources = map (\<lambda>(doc, sim). source_of doc) hs,
                   has_relevant_content = True,
                   top_score = Max (insert 0 (snd ` set hs))\<rparr>)
   \<and> retrieve embeddings default_settings query (Some 0) (Some 0) s
       = (let hs = similarity_search embeddings default_settings query 5 (Some (3 / 10)) s
          in if hs = []
             then \<lparr>context' = [], sources = [], has_relevant_content = False, top_score = 0\<rparr>
             else \<lparr>context' = join separator (map (\<lambda>(doc, sim). page_content doc) hs),
                   sources = map (\<lambda>(doc, sim). source_of doc) hs,
                   has_relevant_content = True,
                   top_score = Max (insert 0 (snd ` set hs))\<rparr>)
   \<and> length (sources (retrieve embeddings default_settings query (Some 0) (Some 0) s)) \<le> 5"
proof -
  have bound: "\<forall>(doc, sim) \<in> set (similarity_search embeddings default_settings query k (Some 0) s).
         sim \<ge> 3 / 10"
    by (cases "vector_store s")
       (auto simp: similarity_search_def or_default_def default_settings_def Let_def
          dest!: filter_results_ge)
  have old: "similarity_search embeddings cfg query k (Some 0) s
     = similarity_search embeddings cfg query k None s
   \<and> similarity_search embeddings cfg query k (Some 0) s
       = similarity_search embeddings cfg query k (Some (retrieval_score_threshold cfg)) s
   \<and> retrieve embeddings cfg query (Some 0) score_threshold s
       = retrieve embeddings cfg query None score_threshold s
   \<and> retrieve embeddings cfg query (Some 0) score_threshold s
       = retrieve embeddings cfg query (Some (retrieval_top_k cfg)) score_threshold s
   \<and> retrieve embeddings cfg query ko (Some 0) s = retrieve embeddings cfg query ko None s
   \<and> retrieve embeddings cfg query ko (Some 0) s
       = retrieve embeddings cfg query ko (Some (retrieval_score_threshold cfg)) s
   \<and> retrieval_score_threshold default_settings = 3 / 10
   \<and> retrieval_top_k default_settings = 5"
    by (cases "vector_store s")
       (simp_all add: similarity_search_def retrieve_def or_default_def default_settings_def)
  have n1: "similarity_search embeddings cfg query k (Some 0) s
       = (case vector_store s of
            None \<Rightarrow> []
          | Some vs \<Rightarrow> filter_results (retrieval_score_threshold cfg)
                         (similarity_search_with_score embeddings vs query k))"
    by (cases "vector_store s") (simp_all add: similarity_search_def or_default_def)
  have n2: "retrieve embeddings cfg query (Some 0) score_threshold s
       = (let hs = similarity_search embeddings cfg query (retrieval_top_k cfg) score_threshold s
          in if hs = []
             then \<lparr>context' = [], sources = [], has_relevant_content = False, top_score = 0\<rparr>
             else \<lparr>context' = join separator (map (\<lambda>(doc, sim). page_content doc) hs),
                   sources = map (\<lambda>(doc, sim). source_of doc) hs,
                   has_relevant_content = True,
                   top_score = Max (insert 0 (snd ` set hs))\<rparr>)"
    using retrieve_search[of embeddings cfg query "Some 0" score_threshold s]
    by (simp add: or_default_def)
  have s0: "similarity_search embeddings cfg query (Suc n) (Some 0) s
      = similarity_search embeddings cfg query (Suc n) (Some (retrieval_score_threshold cfg)) s"
    by (cases "vector_store s") (simp_all add: similarity_search_def or_default_def)
  have n3: "retrieve embeddings cfg query (Some (Suc n)) (Some 0) s
       = (let hs = similarity_search embeddings cfg query (Suc n)
                     (Some (retrieval_score_threshold cfg)) s
          in if hs = []
             then \<lparr>context' = [], sources = [], has_relevant_content = False, top_score = 0\<rparr>
             else \<lparr>context' = join separator (map (\<lambda>(doc, sim). page_content doc) hs),
                   sources = map (\<lambda>(doc, sim). source_of doc) hs,
                   has_relevant_content = True,
                   top_score = Max (insert 0 (snd ` set hs))\<rparr>)"
    using retrieve_search[of embeddings cfg query "Some (Suc n)" "Some 0" s]
    by (simp add: or_default_def s0)
  have s5: "similarity_search embeddings default_settings query 5 (Some 0) s
      = similarity_search embeddings default_settings query 5 (Some (3 / 10)) s"
    by (cases "vector_store s")
       (simp_all add: similarity_search_def or_default_def default_settings_def)
  have n4: "retrieve embeddings default_settings query (Some 0) (Some 0) s
       = (let hs = similarity_search embeddings default_settings query 5 (Some (3 / 10)) s
          in if hs = []
             then \<lparr>context' = [], sources = [], has_relevant_content = False, top_score = 0\<rparr>
             else \<lparr>context' = join separator (map (\<lambda>(doc, sim). page_content doc) hs),
                   sources = map (\<lambda>(doc, sim). source_of doc) hs,
                   has_relevant_content = True,
                   top_score = Max (insert 0 (snd ` set hs))\<rparr>)"
  proof -
    have k5: "or_default (Some 0) (retrieval_top_k default_settings) = 5"
      by (simp add: or_default_def default_settings_def)
    show ?thesis
      by (simp only: retrieve_search[of embeddings default_settings query "Some 0" "Some 0" s]
          k5 s5)
  qed
  have n5: "length (sources (retrieve embeddings default_settings query (Some 0) (Some 0) s)) \<le> 5"
    using length_similarity_search[of embeddings default_settings query 5 "Some (3 / 10)" s]
    by (simp add: n4 Let_def)
  show ?thesis
    by (intro conjI) (rule old[THEN conjunct1] bound n1 n2 n3 n4 n5
        | rule old[THEN conjunct2, THEN conjunct1]
        | rule old[THEN conjunct2, THEN conjunct2, THEN conjunct1]
        | rule old[THEN conjunct2, THEN conjunct2, THEN conjunct2, THEN conjunct1]
        | rule old[THEN conjunct2, THEN conjunct2, THEN conjunct2, THEN conjunct2, THEN conjunct1]
        | rule old[THEN conjunct2, THEN conjunct2, THEN conjunct2, THEN conjunct2, THEN conjunct2,
            THEN conjunct1]
        | rule old[THEN conjunct2, THEN conjunct2, THEN conjunct2, THEN conjunct2, THEN conjunct2,
            THEN conjunct2, THEN conjunct1]
        | rule old[THEN conjunct2, THEN conjunct2, THEN conjunct2, THEN conjunct2, THEN conjunct2,
            THEN conjunct2, THEN conjunct2])+
qed

theorem zero_means_default_witness:
  "similarity_search length_embedding default_settings ''ab'' 5 (Some 0) store2
     = [(\<lparr>page_content = ''abc'', metadata = chunk_md ''d1''\<rparr>, 1 / 2)]
   \<and> similarity_search length_embedding default_settings ''ab'' 5 (Some (1 / 100)) store2
     = [(\<lparr>page_content = ''abc'', metadata = chunk_md ''d1''\<rparr>, 1 / 2),
        (\<lparr>page_content = ''abcdef'', metadata = chunk_md ''d2''\<rparr>, 1 / 17)]
   \<and> (1 / 2 :: real) \<ge> 3 / 10
   \<and> retrieve length_embedding default_settings ''ab'' (Some 0) (Some 0) store2
     = \<lparr>context' = ''abc'',
        sources = [\<lparr>document = ''f.txt'', chunk_id = ''d1_chunk_0000'',
                    content_preview = Some ''abc''\<rparr>],
        has_relevant_content = True, top_score = 1 / 2\<rparr>
   \<and> retrieve length_embedding default_settings ''ab'' (Some 5) (Some (1 / 100)) store2
     = \<lparr>context' = ''abc'' @ separator @ ''abcdef'',
        sources = [\<lparr>document = ''f.txt'', chunk_id = ''d1_chunk_0000'',
                    content_preview = Some ''abc''\<rparr>,
                   \<lparr>document = ''f.txt'', chunk_id = ''d2_chunk_0000'',
                    content_preview = Some ''abcdef''\<rparr>],
        has_relevant_content = True, top_score = 1 / 2\<rparr>"
proof -
  note t = zero_means_default[of length_embedding default_settings "''ab''" 5 store2]
  have r: "similarity_search length_embedding default_settings ''ab'' 5 (Some 0) store2
     = [(\<lparr>page_content = ''abc'', metadata = chunk_md ''d1''\<rparr>, 1 / 2)]"
    by (simp add: sample_defs search_defs)
  have r2: "similarity_search length_embedding default_settings ''ab'' 5 (Some (1 / 100)) store2
     = [(\<lparr>page_content = ''abc'', metadata = chunk_md ''d1''\<rparr>, 1 / 2),
        (\<lparr>page_content = ''abcdef'', metadata = chunk_md ''d2''\<rparr>, 1 / 17)]"
    by (simp add: sample_defs search_defs)
  have r3: "similarity_search length_embedding default_settings ''ab'' 5 (Some (3 / 10)) store2
     = [(\<lparr>page_content = ''abc'', metadata = chunk_md ''d1''\<rparr>, 1 / 2)]"
    by (simp add: sample_defs search_defs)
  have b: "\<forall>(doc, sim) \<in> set (similarity_search length_embedding default_settings ''ab'' 5
              (Some 0) store2). sim \<ge> 3 / 10"
    using t by blast
  have q: "retrieve length_embedding default_settings ''ab'' (Some 0) (Some 0) store2
       = (let hs = similarity_search length_embedding default_settings ''ab'' 5 (Some (3 / 10)) store2
          in if hs = []
             then \<lparr>context' = [], sources = [], has_relevant_content = False, top_score = 0\<rparr>
             else \<lparr>context' = join separator (map (\<lambda>(doc, sim). page_content doc) hs),
                   sources = map (\<lambda>(doc, sim). source_of doc) hs,
                   has_relevant_content = True,
                   top_score = Max (insert 0 (snd ` set hs))\<rparr>)"
    using t by blast
  have q1: "retrieve length_embedding default_settings ''ab'' (Some 0) (Some 0) store2
     = \<lparr>context' = ''abc'',
        sources = [\<lparr>document = ''f.txt'', chunk_id = ''d1_chunk_0000'',
                    content_preview = Some ''abc''\<rparr>],
        has_relevant_content = True, top_score = 1 / 2\<rparr>"
    by (simp add: q r3 source_of_def chunk_md_def truncate_text_def)
  have q2: "retrieve length_embedding default_settings ''ab'' (Some 5) (Some (1 / 100)) store2
     = \<lparr>context' = ''abc'' @ separator @ ''abcdef'',
        sources = [\<lparr>document = ''f.txt'', chunk_id = ''d1_chunk_0000'',
                    content_preview = Some ''abc''\<rparr>,
                   \<lparr>document = ''f.txt'', chunk_id = ''d2_chunk_0000'',
                    content_preview = Some ''abcdef''\<rparr>],
        has_relevant_content = True, top_score = 1 / 2\<rparr>"
    by (simp add: retrieve_def Let_def or_default_def r2 source_of_def chunk_md_def
        truncate_text_def)
  have "(1 / 2 :: real) \<ge> 3 / 10" using b r by simp
  then show ?thesis using r r2 q1 q2 by simp
qed

end
